theory Spec2Isabelle
  imports Main
begin

section \<open>Python values used by \<open>api.py\<close>\<close>

text \<open>
  Strings are lists of characters with code points below 256. An exception is a value
  carrying the text that \<open>str(e)\<close> (and so an f-string \<open>{e}\<close>) yields. Only
  instances of Python's \<open>Exception\<close> are modelled: they are what
  \<open>except Exception\<close> catches.
\<close>

datatype exn = Exception (str_of: string)

text \<open>\<open>xs[i]\<close> for a non-negative index: out of range raises IndexError.\<close>

definition getitem :: "'a list \<Rightarrow> nat \<Rightarrow> exn + 'a" where
  "getitem xs i =
     (if i < length xs then Inr (xs ! i) else Inl (Exception ''list index out of range''))"

text \<open>
  \<open>str.lower()\<close> on code points below 256: the upper-case letters A..Z and the
  Latin-1 capitals (192..214 and 216..222) move up by 32, every other character stays.
\<close>

definition lower_char :: "char \<Rightarrow> char" where
  "lower_char c =
     (let n = (of_char c :: nat) in
      if (65 \<le> n \<and> n \<le> 90) \<or> (192 \<le> n \<and> n \<le> 214) \<or> (216 \<le> n \<and> n \<le> 222)
      then char_of (n + 32) else c)"

definition lower :: "string \<Rightarrow> string" where
  "lower s = map lower_char s"

text \<open>\<open>s.rfind(c)\<close> for a single character: the index of its last occurrence.\<close>

primrec rfind :: "string \<Rightarrow> char \<Rightarrow> nat option" where
  "rfind [] c = None"
| "rfind (x # xs) c =
     (case rfind xs c of
        Some i \<Rightarrow> Some (Suc i)
      | None \<Rightarrow> if x = c then Some 0 else None)"

text \<open>
  \<open>s.rsplit(sep, maxsplit)\<close> for a single-character separator: at most
  \<open>maxsplit\<close> cuts, taken from the right.
\<close>

fun rsplit :: "string \<Rightarrow> char \<Rightarrow> nat \<Rightarrow> string list" where
  "rsplit s sep 0 = [s]"
| "rsplit s sep (Suc n) =
     (case rfind s sep of
        None \<Rightarrow> [s]
      | Some i \<Rightarrow> rsplit (take i s) sep n @ [drop (Suc i) s])"

section \<open>Upload validation\<close>

definition UPLOAD_FOLDER :: string where
  "UPLOAD_FOLDER = ''uploads''"

definition ALLOWED_EXTENSIONS :: "string set" where
  "ALLOWED_EXTENSIONS = {''pdf''}"

text \<open>
  \<^verbatim>\<open>return '.' in filename and filename.rsplit('.', 1)[1].lower() in ALLOWED_EXTENSIONS\<close>
  The \<open>and\<close> short-circuits: the index is only taken when a dot is present.
\<close>

definition allowed_file :: "string \<Rightarrow> exn + bool" where
  "allowed_file filename =
     (if CHR ''.'' \<in> set filename
      then (case getitem (rsplit filename CHR ''.'' 1) 1 of
              Inl e \<Rightarrow> Inl e
            | Inr ext \<Rightarrow> Inr (lower ext \<in> ALLOWED_EXTENSIONS))
      else Inr False)"

text \<open>
  The specification's wording of the same test: the substring after the last dot, and
  the filename being allowed when it has a dot and that substring lower-cases to \<open>pdf\<close>.
\<close>

definition after_last_dot :: "string \<Rightarrow> string" where
  "after_last_dot s = rev (takeWhile (\<lambda>c. c \<noteq> CHR ''.'') (rev s))"

definition spec_allowed :: "string \<Rightarrow> bool" where
  "spec_allowed filename =
     (CHR ''.'' \<in> set filename \<and> lower (after_last_dot filename) = ''pdf'')"

section \<open>External capabilities and effects\<close>

text \<open>
  The libraries the program calls (the OpenAI clients, Weaviate, PyMuPDF, the token
  splitter, the index and its query engine, Werkzeug's file object) are not part of the
  repository. Each call either raises or returns; what it does is a parameter of the
  model, the \<open>world\<close>, chosen afresh for every request. External objects are opaque
  handles.
\<close>

datatype 'a outcome = Raises exn | Returns 'a

type_synonym llm_client = nat
type_synonym embed_model = nat
type_synonym weaviate_client = nat
type_synonym weaviate_store = nat
type_synonym storage_ctx = nat
type_synonym vector_index = nat
type_synonym query_engine = nat
type_synonym page = nat
type_synonym pdf_document = "page list"

text \<open>
  A parsed JSON value, which is also the type of a query: \<open>chat\<close> passes whatever
  value the \<open>message\<close> key holds. An object is the list of the items of the parsed
  dictionary. Numbers are integers.
\<close>

datatype json =
    JNull
  | JBool bool
  | JNum int
  | JStr string
  | JArr "json list"
  | JObj "(string \<times> json) list"

text \<open>\<open>Document(text=chunk)\<close> of the index library.\<close>

datatype document = Document string

record world =
  OpenAI :: "llm_client outcome"
  OpenAIEmbedding :: "embed_model outcome"
  connect_to_wcs :: "weaviate_client outcome"
  WeaviateVectorStore :: "weaviate_client option \<Rightarrow> weaviate_store outcome"
  pymupdf_open :: "string option \<Rightarrow> pdf_document outcome"
  get_text :: "page \<Rightarrow> string outcome"
  close :: "pdf_document \<Rightarrow> unit outcome"
  split_text :: "string \<Rightarrow> string list outcome"
  from_defaults :: "weaviate_store option \<Rightarrow> storage_ctx outcome"
  from_documents ::
    "document list \<Rightarrow> storage_ctx \<Rightarrow> embed_model option \<Rightarrow> vector_index outcome"
  as_query_engine :: "vector_index \<Rightarrow> llm_client option \<Rightarrow> query_engine outcome"
  query :: "query_engine \<Rightarrow> json \<Rightarrow> string outcome"
  secure_filename :: "string \<Rightarrow> string"
  save :: "string \<Rightarrow> unit outcome"

text \<open>
  \<open>query\<close> stands for \<open>str(query_engine.query(q))\<close>: the text of the response.
  Every external call and every \<open>print\<close> is recorded, in order, in a trace.
\<close>

datatype event =
    Ev_OpenAI
  | Ev_OpenAIEmbedding
  | Ev_connect_to_wcs
  | Ev_WeaviateVectorStore
  | Ev_open "string option"
  | Ev_get_text page
  | Ev_close
  | Ev_split_text string
  | Ev_from_defaults
  | Ev_from_documents "document list"
  | Ev_as_query_engine
  | Ev_query json
  | Ev_save string
  | Ev_print string

text \<open>
  A computation runs on a state made of an object (\<open>self\<close> inside a method, the global
  \<open>chatbot\<close> inside a request handler) and the trace; it ends by raising or returning.
\<close>

type_synonym ('g, 'a) py = "'g \<times> event list \<Rightarrow> (exn + 'a) \<times> ('g \<times> event list)"

definition py_return :: "'a \<Rightarrow> ('g, 'a) py" where
  "py_return x s = (Inr x, s)"

definition py_bind :: "('g, 'a) py \<Rightarrow> ('a \<Rightarrow> ('g, 'b) py) \<Rightarrow> ('g, 'b) py" where
  "py_bind m f s = (case m s of (Inl e, s') \<Rightarrow> (Inl e, s') | (Inr x, s') \<Rightarrow> f x s')"

text \<open>\<open>try: m  except Exception as e: h e\<close>\<close>

definition py_try :: "('g, 'a) py \<Rightarrow> (exn \<Rightarrow> ('g, 'a) py) \<Rightarrow> ('g, 'a) py" where
  "py_try m h s = (case m s of (Inl e, s') \<Rightarrow> h e s' | (Inr x, s') \<Rightarrow> (Inr x, s'))"

definition py_of :: "exn + 'a \<Rightarrow> ('g, 'a) py" where
  "py_of r s = (r, s)"

definition call :: "event \<Rightarrow> 'a outcome \<Rightarrow> ('g, 'a) py" where
  "call ev out s =
     (case out of
        Raises e \<Rightarrow> (Inl e, (fst s, snd s @ [ev]))
      | Returns x \<Rightarrow> (Inr x, (fst s, snd s @ [ev])))"

definition print :: "string \<Rightarrow> ('g, unit) py" where
  "print msg s = (Inr (), (fst s, snd s @ [Ev_print msg]))"

definition get_attr :: "('g \<Rightarrow> 'a) \<Rightarrow> ('g, 'a) py" where
  "get_attr f s = (Inr (f (fst s)), s)"

definition assign :: "('g \<Rightarrow> 'g) \<Rightarrow> ('g, unit) py" where
  "assign upd s = (Inr (), (upd (fst s), snd s))"

section \<open>The class \<open>Chatbot\<close>\<close>

record Chatbot =
  filename :: "string option"
  llm :: "llm_client option"
  embeddings :: "embed_model option"
  client :: "weaviate_client option"
  vector_store :: "weaviate_store option"
  index :: "vector_index option"
  summary :: "string option"

text \<open>\<open>Chatbot()\<close>: every attribute is \<open>None\<close>.\<close>

definition Chatbot_init :: Chatbot where
  "Chatbot_init =
     \<lparr>filename = None, llm = None, embeddings = None, client = None,
      vector_store = None, index = None, summary = None\<rparr>"

definition connect_to_weaviate :: "world \<Rightarrow> (Chatbot, weaviate_client) py" where
  "connect_to_weaviate w = call Ev_connect_to_wcs (connect_to_wcs w)"

definition create_vector_store :: "world \<Rightarrow> (Chatbot, weaviate_store) py" where
  "create_vector_store w =
     py_bind (get_attr client) (\<lambda>cl.
     call Ev_WeaviateVectorStore (WeaviateVectorStore w cl))"

text \<open>
  \<^verbatim>\<open>for page in document: extracted_text += page.get_text()\<close>
\<close>

fun read_pages :: "world \<Rightarrow> page list \<Rightarrow> string \<Rightarrow> (Chatbot, string) py" where
  "read_pages w [] extracted_text = py_return extracted_text"
| "read_pages w (p # ps) extracted_text =
     py_bind (call (Ev_get_text p) (get_text w p)) (\<lambda>t.
     read_pages w ps (extracted_text @ t))"

definition extract_text_from_pdf :: "world \<Rightarrow> (Chatbot, string) py" where
  "extract_text_from_pdf w =
     py_try
       (py_bind (get_attr filename) (\<lambda>fn.
        py_bind (call (Ev_open fn) (pymupdf_open w fn)) (\<lambda>doc.
        py_bind (read_pages w doc []) (\<lambda>extracted_text.
        py_bind (call Ev_close (close w doc)) (\<lambda>_.
        py_return extracted_text)))))
       (\<lambda>e.
        py_bind (print (''Error extracting text from PDF: '' @ str_of e)) (\<lambda>_.
        py_return []))"

text \<open>
  \<open>TokenTextSplitter(chunk_size=512, chunk_overlap=20).split_text(text)\<close>; the
  splitter's construction is part of the one external call.
\<close>

definition chunk_text :: "world \<Rightarrow> string \<Rightarrow> (Chatbot, string list) py" where
  "chunk_text w text = call (Ev_split_text text) (split_text w text)"

definition process_document :: "world \<Rightarrow> (Chatbot, vector_index option) py" where
  "process_document w =
     py_try
       (py_bind (extract_text_from_pdf w) (\<lambda>extracted_text.
        py_bind (chunk_text w extracted_text) (\<lambda>chunks.
        py_bind (py_return (map Document chunks)) (\<lambda>docs.
        py_bind (get_attr vector_store) (\<lambda>vs.
        py_bind (call Ev_from_defaults (from_defaults w vs)) (\<lambda>storage_context.
        py_bind (get_attr embeddings) (\<lambda>em.
        py_bind (call (Ev_from_documents docs) (from_documents w docs storage_context em))
          (\<lambda>idx.
        py_return (Some idx)))))))))
       (\<lambda>e.
        py_bind (print (''Error processing document: '' @ str_of e)) (\<lambda>_.
        py_return None))"

definition SORRY_MESSAGE :: string where
  "SORRY_MESSAGE =
     ''Sorry, the document hasn't been processed correctly. Unable to answer queries.''"

definition FAILED_SUMMARY :: string where
  "FAILED_SUMMARY = ''Failed to process document. No summary available.''"

definition ask_query :: "world \<Rightarrow> json \<Rightarrow> (Chatbot, string) py" where
  "ask_query w q =
     py_bind (get_attr index) (\<lambda>i.
     case i of
       None \<Rightarrow> py_return SORRY_MESSAGE
     | Some idx \<Rightarrow>
         py_try
           (py_bind (get_attr llm) (\<lambda>l.
            py_bind (call Ev_as_query_engine (as_query_engine w idx l)) (\<lambda>qe.
            py_bind (call (Ev_query q) (query w qe q)) (\<lambda>response.
            py_return response))))
           (\<lambda>e. py_return (''Error processing query: '' @ str_of e)))"

definition get_initial_summary :: "world \<Rightarrow> (Chatbot, string) py" where
  "get_initial_summary w =
     py_bind (get_attr index) (\<lambda>i.
     case i of
       None \<Rightarrow> py_return FAILED_SUMMARY
     | Some _ \<Rightarrow> ask_query w (JStr ''Please provide a brief summary of the document.''))"

definition initialize_with_file :: "world \<Rightarrow> string \<Rightarrow> (Chatbot, unit) py" where
  "initialize_with_file w fname =
     py_bind (assign (\<lambda>self. self\<lparr>filename := Some fname\<rparr>)) (\<lambda>_.
     py_bind (call Ev_OpenAI (OpenAI w)) (\<lambda>v.
     py_bind (assign (\<lambda>self. self\<lparr>llm := Some v\<rparr>)) (\<lambda>_.
     py_bind (call Ev_OpenAIEmbedding (OpenAIEmbedding w)) (\<lambda>v.
     py_bind (assign (\<lambda>self. self\<lparr>embeddings := Some v\<rparr>)) (\<lambda>_.
     py_bind (connect_to_weaviate w) (\<lambda>v.
     py_bind (assign (\<lambda>self. self\<lparr>client := Some v\<rparr>)) (\<lambda>_.
     py_bind (create_vector_store w) (\<lambda>v.
     py_bind (assign (\<lambda>self. self\<lparr>vector_store := Some v\<rparr>)) (\<lambda>_.
     py_bind (process_document w) (\<lambda>v.
     py_bind (assign (\<lambda>self. self\<lparr>index := v\<rparr>)) (\<lambda>_.
     py_bind (get_initial_summary w) (\<lambda>v.
     assign (\<lambda>self. self\<lparr>summary := Some v\<rparr>)))))))))))))"

section \<open>The HTTP handlers\<close>

text \<open>
  A response is its status and the JSON object of its body. An exception that leaves a
  handler (the result \<open>Inl\<close>) is what reaches the HTTP layer.
\<close>

type_synonym response = "nat \<times> (string \<times> json) list"

text \<open>An uploaded file; it is truthy when its filename is not empty.\<close>

record file_storage =
  file_filename :: string

record upload_request =
  files :: "string \<rightharpoonup> file_storage"

definition file_truthy :: "file_storage \<Rightarrow> bool" where
  "file_truthy file = (file_filename file \<noteq> [])"

text \<open>\<open>os.path.join(a, b)\<close> on a POSIX system.\<close>

definition os_path_join :: "string \<Rightarrow> string \<Rightarrow> string" where
  "os_path_join a b =
     (if take 1 b = ''/'' then b
      else if a = [] then b
      else if last a = CHR ''/'' then a @ b
      else a @ ''/'' @ b)"

text \<open>
  A method called on the global \<open>chatbot\<close>: the method mutates the very object the
  global refers to, so what it did to \<open>self\<close> stays when it raises.
\<close>

definition on_chatbot :: "(Chatbot, 'a) py \<Rightarrow> (Chatbot option, 'a) py" where
  "on_chatbot m s =
     (case fst s of
        None \<Rightarrow> (Inl (Exception ''NoneType object has no attribute''), s)
      | Some self \<Rightarrow>
          (case m (self, snd s) of (r, (self', t')) \<Rightarrow> (r, (Some self', t'))))"

definition json_of_opt :: "string option \<Rightarrow> json" where
  "json_of_opt v = (case v of None \<Rightarrow> JNull | Some s \<Rightarrow> JStr s)"

definition upload_file :: "world \<Rightarrow> upload_request \<Rightarrow> (Chatbot option, response) py" where
  "upload_file w request =
     (case files request ''file'' of
        None \<Rightarrow> py_return (400, [(''error'', JStr ''No file part'')])
      | Some file \<Rightarrow>
          if file_filename file = [] then
            py_return (400, [(''error'', JStr ''No selected file'')])
          else
            py_bind
              (if file_truthy file then py_of (allowed_file (file_filename file))
               else py_return False)
              (\<lambda>ok.
               if ok then
                 py_bind (py_return (secure_filename w (file_filename file))) (\<lambda>fname.
                 py_bind (py_return (os_path_join UPLOAD_FOLDER fname)) (\<lambda>filepath.
                 py_bind (call (Ev_save filepath) (save w filepath)) (\<lambda>_.
                 py_bind (assign (\<lambda>_. Some Chatbot_init)) (\<lambda>_.
                 py_bind (on_chatbot (initialize_with_file w filepath)) (\<lambda>_.
                 py_bind (on_chatbot (get_attr summary)) (\<lambda>s.
                 py_return
                   (200, [(''message'', JStr ''File uploaded successfully''),
                          (''summary'', json_of_opt s)])))))))
               else py_return (400, [(''error'', JStr ''Invalid file type'')])))"

text \<open>Truthiness of a JSON value, as \<open>not data\<close> tests it.\<close>

fun truthy :: "json \<Rightarrow> bool" where
  "truthy JNull = False"
| "truthy (JBool b) = b"
| "truthy (JNum n) = (n \<noteq> 0)"
| "truthy (JStr s) = (s \<noteq> [])"
| "truthy (JArr xs) = (xs \<noteq> [])"
| "truthy (JObj kvs) = (kvs \<noteq> [])"

primrec substring :: "string \<Rightarrow> string \<Rightarrow> bool" where
  "substring k [] = (k = [])"
| "substring k (c # cs) = (take (length k) (c # cs) = k \<or> substring k cs)"

text \<open>
  \<open>key in data\<close>: a key of a dictionary, an element of a list, a substring of a string;
  a number, a boolean or \<open>None\<close> is not iterable.
\<close>

fun py_in :: "string \<Rightarrow> json \<Rightarrow> exn + bool" where
  "py_in k (JObj kvs) = Inr (k \<in> set (map fst kvs))"
| "py_in k (JArr xs) = Inr (JStr k \<in> set xs)"
| "py_in k (JStr s) = Inr (substring k s)"
| "py_in k _ = Inl (Exception ''argument is not iterable'')"

text \<open>\<open>data[key]\<close> for a string key: only a dictionary can be indexed by it.\<close>

fun subscript :: "json \<Rightarrow> string \<Rightarrow> exn + json" where
  "subscript (JObj kvs) k =
     (case map_of kvs k of None \<Rightarrow> Inl (Exception k) | Some v \<Rightarrow> Inr v)"
| "subscript _ k = Inl (Exception ''indices must be integers'')"

definition chat :: "world \<Rightarrow> json \<Rightarrow> (Chatbot option, response) py" where
  "chat w data =
     py_bind (get_attr (\<lambda>chatbot. chatbot)) (\<lambda>chatbot.
     case chatbot of
       None \<Rightarrow> py_return (400, [(''error'', JStr ''Please upload a document first'')])
     | Some _ \<Rightarrow>
         py_bind
           (if truthy data then py_of (py_in ''message'' data) else py_return False)
           (\<lambda>has_message.
            if has_message then
              py_bind (py_of (subscript data ''message'')) (\<lambda>q.
              py_bind (on_chatbot (ask_query w q)) (\<lambda>response.
              py_return (200, [(''response'', JStr response)])))
            else py_return (400, [(''error'', JStr ''No message provided'')])))"

definition status :: "(Chatbot option, response) py" where
  "status =
     py_bind (get_attr (\<lambda>chatbot. chatbot)) (\<lambda>chatbot.
     py_return
       (200, [(''initialized'', JBool (chatbot \<noteq> None)),
              (''summary'',
               case chatbot of None \<Rightarrow> JNull | Some c \<Rightarrow> json_of_opt (summary c))]))"

section \<open>What a run of ingestion depends on\<close>

text \<open>
  The outcome of ingestion as a function of the world alone, without state or trace. The
  lemmas below show that the methods compute exactly these.

  The text of the pages in order, or the first failure of \<open>get_text\<close>:
\<close>

fun pages_text :: "world \<Rightarrow> page list \<Rightarrow> string \<Rightarrow> string outcome" where
  "pages_text w [] acc = Returns acc"
| "pages_text w (p # ps) acc =
     (case get_text w p of
        Raises e \<Rightarrow> Raises e
      | Returns t \<Rightarrow> pages_text w ps (acc @ t))"

text \<open>The extracted text: empty as soon as opening, reading or closing raises.\<close>

definition pdf_text :: "world \<Rightarrow> string option \<Rightarrow> string" where
  "pdf_text w fn =
     (case pymupdf_open w fn of
        Raises _ \<Rightarrow> []
      | Returns doc \<Rightarrow>
          (case pages_text w doc [] of
             Raises _ \<Rightarrow> []
           | Returns s \<Rightarrow> (case close w doc of Raises _ \<Rightarrow> [] | Returns _ \<Rightarrow> s)))"

text \<open>The index built from a file: none as soon as a step after extraction raises.\<close>

definition built_index ::
  "world \<Rightarrow> string option \<Rightarrow> weaviate_store option \<Rightarrow> embed_model option
     \<Rightarrow> vector_index option"
where
  "built_index w fn vs em =
     (case split_text w (pdf_text w fn) of
        Raises _ \<Rightarrow> None
      | Returns chunks \<Rightarrow>
          (case from_defaults w vs of
             Raises _ \<Rightarrow> None
           | Returns sc \<Rightarrow>
               (case from_documents w (map Document chunks) sc em of
                  Raises _ \<Rightarrow> None
                | Returns idx \<Rightarrow> Some idx)))"

text \<open>
  One of the four constructions that \<open>_initialize_with_file\<close> performs outside any
  \<open>try\<close> raises: the LLM client, the embedding model, the connection to the vector
  store, the vector store.
\<close>

definition clients_raise :: "world \<Rightarrow> bool" where
  "clients_raise w =
     (case OpenAI w of
        Raises _ \<Rightarrow> True
      | Returns _ \<Rightarrow>
          (case OpenAIEmbedding w of
             Raises _ \<Rightarrow> True
           | Returns _ \<Rightarrow>
               (case connect_to_wcs w of
                  Raises _ \<Rightarrow> True
                | Returns cl \<Rightarrow>
                    (case WeaviateVectorStore w (Some cl) of
                       Raises _ \<Rightarrow> True
                     | Returns _ \<Rightarrow> False))))"

text \<open>
  A step of ingestion other than the extraction of the text raises: one of the four
  constructions, the chunking, the storage context or the construction of the index.
\<close>

definition ingestion_raises :: "world \<Rightarrow> string \<Rightarrow> bool" where
  "ingestion_raises w path =
     (case OpenAI w of
        Raises _ \<Rightarrow> True
      | Returns _ \<Rightarrow>
          (case OpenAIEmbedding w of
             Raises _ \<Rightarrow> True
           | Returns em \<Rightarrow>
               (case connect_to_wcs w of
                  Raises _ \<Rightarrow> True
                | Returns cl \<Rightarrow>
                    (case WeaviateVectorStore w (Some cl) of
                       Raises _ \<Rightarrow> True
                     | Returns vs \<Rightarrow>
                         built_index w (Some path) (Some vs) (Some em) = None))))"

text \<open>Where \<open>upload_file\<close> saves an accepted file.\<close>

definition upload_path :: "world \<Rightarrow> file_storage \<Rightarrow> string" where
  "upload_path w file = os_path_join UPLOAD_FOLDER (secure_filename w (file_filename file))"

section \<open>Example worlds, requests and sessions\<close>

text \<open>A world in which every call returns; the document has two pages.\<close>

definition world_ok :: world where
  "world_ok =
     \<lparr>OpenAI = Returns 1, OpenAIEmbedding = Returns 2, connect_to_wcs = Returns 3,
      WeaviateVectorStore = (\<lambda>_. Returns 4),
      pymupdf_open = (\<lambda>_. Returns [0, 1]),
      get_text = (\<lambda>p. Returns (if p = 0 then ''Hello '' else ''world.'')),
      close = (\<lambda>_. Returns ()),
      split_text = (\<lambda>s. Returns (if s = [] then [] else [s])),
      from_defaults = (\<lambda>_. Returns 5),
      from_documents = (\<lambda>_ _ _. Returns 6),
      as_query_engine = (\<lambda>_ _. Returns 7),
      query = (\<lambda>_ _. Returns ''answer''),
      secure_filename = (\<lambda>s. s),
      save = (\<lambda>_. Returns ())\<rparr>"

text \<open>The vector store cannot be reached when the client connects.\<close>

definition world_no_weaviate :: world where
  "world_no_weaviate = world_ok\<lparr>connect_to_wcs := Raises (Exception ''connection refused'')\<rparr>"

text \<open>The file opens, but reading a page fails.\<close>

definition world_bad_page :: world where
  "world_bad_page = world_ok\<lparr>get_text := (\<lambda>_. Raises (Exception ''bad page''))\<rparr>"

text \<open>The file cannot be opened as a PDF.\<close>

definition world_unreadable_pdf :: world where
  "world_unreadable_pdf = world_ok\<lparr>pymupdf_open := (\<lambda>_. Raises (Exception ''bad file''))\<rparr>"

text \<open>The vector store fails while the index is built.\<close>

definition world_index_fails :: world where
  "world_index_fails =
     world_ok\<lparr>from_documents := (\<lambda>_ _ _. Raises (Exception ''vector store unreachable''))\<rparr>"

text \<open>The query engine cannot be made; the LLM call fails.\<close>

definition world_no_engine :: world where
  "world_no_engine = world_ok\<lparr>as_query_engine := (\<lambda>_ _. Raises (Exception ''no retriever''))\<rparr>"

definition world_llm_down :: world where
  "world_llm_down = world_ok\<lparr>query := (\<lambda>_ _. Raises (Exception ''rate limit''))\<rparr>"

definition pdf_file :: file_storage where
  "pdf_file = \<lparr>file_filename = ''doc.pdf''\<rparr>"

definition pdf_request :: upload_request where
  "pdf_request = \<lparr>files = [''file'' \<mapsto> pdf_file]\<rparr>"

definition txt_file :: file_storage where
  "txt_file = \<lparr>file_filename = ''notes.txt''\<rparr>"

definition txt_request :: upload_request where
  "txt_request = \<lparr>files = [''file'' \<mapsto> txt_file]\<rparr>"

text \<open>A session whose index was built, and the path of its file.\<close>

definition doc_path :: string where
  "doc_path = ''uploads/doc.pdf''"

definition ready_session :: Chatbot where
  "ready_session =
     \<lparr>filename = Some doc_path, llm = Some 1, embeddings = Some 2, client = Some 3,
      vector_store = Some 4, index = Some 6, summary = Some ''answer''\<rparr>"

section \<open>Properties of the extension test\<close>

lemma rfind_None_iff: "rfind s c = None \<longleftrightarrow> c \<notin> set s"
  by (induction s) (auto split: option.splits)

lemma rfind_Some_drop:
  "rfind s c = Some i \<Longrightarrow> drop (Suc i) s = rev (takeWhile (\<lambda>x. x \<noteq> c) (rev s))"
proof (induction s arbitrary: i)
  case Nil
  then show ?case by simp
next
  case (Cons x xs)
  show ?case
  proof (cases "rfind xs c")
    case None
    then have notin: "c \<notin> set xs" by (simp add: rfind_None_iff)
    from Cons.prems None have "x = c" "i = 0" by (auto split: if_splits)
    moreover have "takeWhile (\<lambda>x. x \<noteq> c) (rev xs @ [c]) = rev xs"
      using notin by (subst takeWhile_append2) auto
    ultimately show ?thesis by simp
  next
    case (Some j)
    then have "c \<in> set xs" using rfind_None_iff [of xs c] by auto
    then have "takeWhile (\<lambda>x. x \<noteq> c) (rev xs @ [x]) = takeWhile (\<lambda>x. x \<noteq> c) (rev xs)"
      by (intro takeWhile_append1 [where x = c]) auto
    moreover from Cons.prems Some have "i = Suc j" by simp
    ultimately show ?thesis using Cons.IH [OF Some] by simp
  qed
qed

lemma rsplit_once:
  "c \<in> set s \<Longrightarrow> getitem (rsplit s c 1) 1 = Inr (rev (takeWhile (\<lambda>x. x \<noteq> c) (rev s)))"
proof -
  assume "c \<in> set s"
  then obtain i where i: "rfind s c = Some i"
    using rfind_None_iff [of s c] by (cases "rfind s c") auto
  then show ?thesis
    using rfind_Some_drop [OF i] by (simp add: getitem_def)
qed

lemma allowed_file_spec: "allowed_file fname = Inr (spec_allowed fname)"
proof (cases "CHR ''.'' \<in> set fname")
  case True
  show ?thesis
    unfolding allowed_file_def spec_allowed_def after_last_dot_def ALLOWED_EXTENSIONS_def
    using True by (simp only: rsplit_once [OF True]) simp
next
  case False
  then show ?thesis by (simp add: allowed_file_def spec_allowed_def)
qed


text \<open>
  C9. For every filename, \<open>allowed_file\<close> returns (without raising) the truth value of:
  the filename contains a dot and the substring after the last dot is \<open>pdf\<close> after
  lower-casing. Upper-case and mixed-case extensions are accepted, and the bare filename
  \<open>pdf\<close>, which has no dot, is rejected.
\<close>

theorem allowed_file_iff_pdf_extension:
  "(\<forall>fname. allowed_file fname = Inr (spec_allowed fname))
   \<and> allowed_file ''report.PDF'' = Inr True
   \<and> allowed_file ''notes.v2.PdF'' = Inr True
   \<and> allowed_file ''pdf'' = Inr False"
proof -
  have gen: "allowed_file fname = Inr (spec_allowed fname)" for fname
    by (rule allowed_file_spec)
  have up: "allowed_file ''report.PDF'' = Inr True"
    by code_simp
  have mixed: "allowed_file ''notes.v2.PdF'' = Inr True"
    by code_simp
  have bare: "allowed_file ''pdf'' = Inr False"
    by code_simp
  show ?thesis using gen up mixed bare by simp
qed

section \<open>What the methods compute\<close>

text \<open>
  No method but \<open>_initialize_with_file\<close> raises or changes \<open>self\<close>; each returns
  the value that the functions of the world above give.
\<close>

lemmas py_defs =
  py_return_def py_bind_def py_try_def py_of_def call_def print_def get_attr_def assign_def

lemmas init_defs =
  initialize_with_file_def connect_to_weaviate_def create_vector_store_def Chatbot_init_def

lemma read_pages_result:
  "\<exists>t'. read_pages w ps acc (c, t) =
     ((case pages_text w ps acc of Raises e \<Rightarrow> Inl e | Returns s \<Rightarrow> Inr s), (c, t'))"
proof (induction ps arbitrary: acc t)
  case Nil
  show ?case by (simp add: py_defs)
next
  case (Cons p ps)
  show ?case
  proof (cases "get_text w p")
    case (Raises e)
    then show ?thesis by (simp add: py_defs)
  next
    case (Returns x)
    from Cons.IH [of "acc @ x" "t @ [Ev_get_text p]"] Returns
    show ?thesis by (simp add: py_defs)
  qed
qed

lemma extract_text_result:
  "\<exists>t'. extract_text_from_pdf w (c, t) = (Inr (pdf_text w (filename c)), (c, t'))"
proof (cases "pymupdf_open w (filename c)")
  case (Raises e)
  then show ?thesis
    by (simp add: extract_text_from_pdf_def pdf_text_def py_defs)
next
  case (Returns doc)
  obtain t' where rp: "read_pages w doc [] (c, t @ [Ev_open (filename c)]) =
     ((case pages_text w doc [] of Raises e \<Rightarrow> Inl e | Returns s \<Rightarrow> Inr s), (c, t'))"
    using read_pages_result by blast
  show ?thesis
    using Returns rp
    by (simp add: extract_text_from_pdf_def pdf_text_def py_defs split: outcome.splits)
qed

lemma process_document_result:
  "\<exists>t'. process_document w (c, t) =
     (Inr (built_index w (filename c) (vector_store c) (embeddings c)), (c, t'))"
proof -
  obtain t' where ex: "extract_text_from_pdf w (c, t) = (Inr (pdf_text w (filename c)), (c, t'))"
    using extract_text_result by blast
  show ?thesis
    using ex
    by (simp add: process_document_def chunk_text_def built_index_def py_defs
        split: outcome.splits)
qed

lemma ask_query_None:
  "index c = None \<Longrightarrow> ask_query w q (c, t) = (Inr SORRY_MESSAGE, (c, t))"
  by (simp add: ask_query_def py_defs)

lemma ask_query_returns:
  "\<exists>s t'. ask_query w q (c, t) = (Inr s, (c, t'))"
  by (cases "index c") (auto simp: ask_query_def py_defs split: outcome.splits)

lemma get_initial_summary_returns:
  "\<exists>s t'. get_initial_summary w (c, t) = (Inr s, (c, t'))"
  using ask_query_returns [of w _ c t]
  by (cases "index c") (auto simp: get_initial_summary_def py_defs)

lemma get_initial_summary_None:
  "index c = None \<Longrightarrow> get_initial_summary w (c, t) = (Inr FAILED_SUMMARY, (c, t))"
  by (simp add: get_initial_summary_def py_defs)

lemma initialize_raises:
  assumes "clients_raise w"
  obtains e c' t' where
    "initialize_with_file w path (Chatbot_init, t) = (Inl e, (c', t'))"
    "index c' = None" "summary c' = None"
proof -
  have "\<exists>e c' t'. initialize_with_file w path (Chatbot_init, t) = (Inl e, (c', t'))
           \<and> index c' = None \<and> summary c' = None"
    using assms
    by (auto simp: clients_raise_def init_defs py_defs split: outcome.splits)
  then show thesis using that by (elim exE conjE)
qed

lemma initialize_returns:
  assumes "\<not> clients_raise w"
  obtains c' t' s where
    "initialize_with_file w path (Chatbot_init, t) = (Inr (), (c', t'))"
    "summary c' = Some s"
    "(index c' = None) = ingestion_raises w path"
    "index c' = None \<Longrightarrow> s = FAILED_SUMMARY"
proof -
  from assms obtain l em cl vs where
    O: "OpenAI w = Returns l" and E: "OpenAIEmbedding w = Returns em" and
    C: "connect_to_wcs w = Returns cl" and V: "WeaviateVectorStore w (Some cl) = Returns vs"
    by (auto simp: clients_raise_def split: outcome.splits)
  define c4 where "c4 =
     \<lparr>filename = Some path, llm = Some l, embeddings = Some em, client = Some cl,
      vector_store = Some vs, index = None, summary = None\<rparr>"
  define t4 where
    "t4 = t @ [Ev_OpenAI] @ [Ev_OpenAIEmbedding] @ [Ev_connect_to_wcs] @ [Ev_WeaviateVectorStore]"
  define bi where "bi = built_index w (Some path) (Some vs) (Some em)"
  obtain t5 where pd: "process_document w (c4, t4) = (Inr bi, (c4, t5))"
    using process_document_result [of w c4 t4] by (auto simp: c4_def bi_def)
  define c5 where "c5 = c4\<lparr>index := bi\<rparr>"
  obtain s t6 where gs: "get_initial_summary w (c5, t5) = (Inr s, (c5, t6))"
    using get_initial_summary_returns by blast
  have run: "initialize_with_file w path (Chatbot_init, t) = (Inr (), (c5\<lparr>summary := Some s\<rparr>, t6))"
    using O E C V pd gs
    by (simp add: init_defs py_defs c4_def c5_def t4_def)
  have ing: "(bi = None) = ingestion_raises w path"
    using O E C V by (simp add: ingestion_raises_def bi_def)
  have fs: "bi = None \<Longrightarrow> s = FAILED_SUMMARY"
    using gs get_initial_summary_None [of c5 w t5] by (simp add: c5_def)
  show thesis
  proof (rule that [of "c5\<lparr>summary := Some s\<rparr>" t6 s])
    show "initialize_with_file w path (Chatbot_init, t) = (Inr (), (c5\<lparr>summary := Some s\<rparr>, t6))"
      by (rule run)
    show "summary (c5\<lparr>summary := Some s\<rparr>) = Some s" by simp
    show "(index (c5\<lparr>summary := Some s\<rparr>) = None) = ingestion_raises w path"
      using ing by (simp add: c5_def)
    show "s = FAILED_SUMMARY" if "index (c5\<lparr>summary := Some s\<rparr>) = None"
      using that fs by (simp add: c5_def)
  qed
qed

lemma clients_raise_ingestion: "clients_raise w \<Longrightarrow> ingestion_raises w path"
  by (auto simp: clients_raise_def ingestion_raises_def split: outcome.splits)

section \<open>The upload handler, step by step\<close>

text \<open>
  An upload that passes validation and is saved replaces the global by a fresh
  \<open>Chatbot()\<close> and initialises it; the handler raises exactly when one of the four
  unguarded constructions does, and the index is \<open>None\<close> exactly when a step other than
  the extraction raises.
\<close>

lemma upload_accepted_unfold:
  assumes "files req ''file'' = Some file" and "file_filename file \<noteq> []"
    and "spec_allowed (file_filename file)"
    and "save w (upload_path w file) = Returns ()"
  shows "upload_file w req (g, t) =
     py_bind (on_chatbot (initialize_with_file w (upload_path w file))) (\<lambda>_.
     py_bind (on_chatbot (get_attr summary)) (\<lambda>s.
     py_return
       (200, [(''message'', JStr ''File uploaded successfully''),
              (''summary'', json_of_opt s)])))
     (Some Chatbot_init, t @ [Ev_save (upload_path w file)])"
  using assms
  by (simp add: upload_file_def upload_path_def allowed_file_spec file_truthy_def
      py_return_def py_bind_def py_of_def call_def assign_def)

lemma upload_accepted:
  assumes "files req ''file'' = Some file" and "file_filename file \<noteq> []"
    and "spec_allowed (file_filename file)"
    and "save w (upload_path w file) = Returns ()"
    and "initialize_with_file w (upload_path w file)
           (Chatbot_init, t @ [Ev_save (upload_path w file)]) = (r, (c', t'))"
  shows "upload_file w req (g, t) =
     (case r of
        Inl e \<Rightarrow> (Inl e, (Some c', t'))
      | Inr _ \<Rightarrow>
          (Inr (200, [(''message'', JStr ''File uploaded successfully''),
                      (''summary'', json_of_opt (summary c'))]),
           (Some c', t')))"
  unfolding upload_accepted_unfold [OF assms(1-4)]
proof -
  have oc: "on_chatbot (initialize_with_file w (upload_path w file))
              (Some Chatbot_init, t @ [Ev_save (upload_path w file)]) = (r, (Some c', t'))"
    using assms(5) by (simp add: on_chatbot_def)
  have ga: "on_chatbot (get_attr summary) (Some c', t') = (Inr (summary c'), (Some c', t'))"
    by (simp add: on_chatbot_def get_attr_def)
  show "py_bind (on_chatbot (initialize_with_file w (upload_path w file))) (\<lambda>_.
     py_bind (on_chatbot (get_attr summary)) (\<lambda>s.
     py_return
       (200::nat, [(''message'', JStr ''File uploaded successfully''),
              (''summary'', json_of_opt s)])))
     (Some Chatbot_init, t @ [Ev_save (upload_path w file)]) =
     (case r of
        Inl e \<Rightarrow> (Inl e, (Some c', t'))
      | Inr _ \<Rightarrow>
          (Inr (200, [(''message'', JStr ''File uploaded successfully''),
                      (''summary'', json_of_opt (summary c'))]),
           (Some c', t')))"
    by (cases r) (simp_all add: oc ga py_bind_def py_return_def)
qed

lemma upload_session_index:
  assumes "files req ''file'' = Some file" and "file_filename file \<noteq> []"
    and "spec_allowed (file_filename file)"
    and "save w (upload_path w file) = Returns ()"
  obtains r c t' where
    "upload_file w req (g, t) = (r, (Some c, t'))"
    "(index c = None) = ingestion_raises w (upload_path w file)"
proof (cases "clients_raise w")
  case True
  show thesis
  proof (rule initialize_raises [OF True, of "upload_path w file" "t @ [Ev_save (upload_path w file)]"])
    fix e c' t'
    assume run: "initialize_with_file w (upload_path w file)
       (Chatbot_init, t @ [Ev_save (upload_path w file)]) = (Inl e, (c', t'))"
      and idx: "index c' = None"
    have up: "upload_file w req (g, t) = (Inl e, (Some c', t'))"
      using upload_accepted [OF assms run, of g] by simp
    have ix: "(index c' = None) = ingestion_raises w (upload_path w file)"
      using idx clients_raise_ingestion [OF True, of "upload_path w file"] by simp
    show thesis by (rule that [OF up ix])
  qed
next
  case False
  show thesis
  proof (rule initialize_returns [OF False, of "upload_path w file" "t @ [Ev_save (upload_path w file)]"])
    fix c' t' s
    assume run: "initialize_with_file w (upload_path w file)
       (Chatbot_init, t @ [Ev_save (upload_path w file)]) = (Inr (), (c', t'))"
      and idx: "(index c' = None) = ingestion_raises w (upload_path w file)"
    have up: "upload_file w req (g, t) =
      (Inr (200, [(''message'', JStr ''File uploaded successfully''),
                  (''summary'', json_of_opt (summary c'))]), (Some c', t'))"
      using upload_accepted [OF assms run, of g] by simp
    show thesis by (rule that [OF up idx])
  qed
qed

lemma upload_returns_200:
  assumes "files req ''file'' = Some file" and "file_filename file \<noteq> []"
    and "spec_allowed (file_filename file)"
    and "save w (upload_path w file) = Returns ()"
    and "\<not> clients_raise w"
  obtains s c t' where
    "upload_file w req (g, t) =
       (Inr (200, [(''message'', JStr ''File uploaded successfully''),
                   (''summary'', JStr s)]), (Some c, t'))"
    "summary c = Some s"
    "index c = None \<Longrightarrow> s = FAILED_SUMMARY"
proof (rule initialize_returns [OF assms(5), of "upload_path w file" "t @ [Ev_save (upload_path w file)]"])
  fix c' t' s
  assume run: "initialize_with_file w (upload_path w file)
       (Chatbot_init, t @ [Ev_save (upload_path w file)]) = (Inr (), (c', t'))"
    and sm: "summary c' = Some s"
    and fs: "index c' = None \<Longrightarrow> s = FAILED_SUMMARY"
  have up: "upload_file w req (g, t) =
      (Inr (200, [(''message'', JStr ''File uploaded successfully''),
                  (''summary'', JStr s)]), (Some c', t'))"
    using upload_accepted [OF assms(1-4) run, of g] sm by (simp add: json_of_opt_def)
  show thesis by (rule that [OF up sm fs])
qed

lemma upload_escapes:
  assumes "files req ''file'' = Some file" and "file_filename file \<noteq> []"
    and "spec_allowed (file_filename file)"
    and "save w (upload_path w file) = Returns ()"
    and "clients_raise w"
  obtains e c t' where
    "upload_file w req (g, t) = (Inl e, (Some c, t'))"
    "index c = None" "summary c = None"
proof (rule initialize_raises [OF assms(5), of "upload_path w file" "t @ [Ev_save (upload_path w file)]"])
  fix e c' t'
  assume run: "initialize_with_file w (upload_path w file)
       (Chatbot_init, t @ [Ev_save (upload_path w file)]) = (Inl e, (c', t'))"
    and idx: "index c' = None" and sm: "summary c' = None"
  have up: "upload_file w req (g, t) = (Inl e, (Some c', t'))"
    using upload_accepted [OF assms(1-4) run, of g] by simp
  show thesis by (rule that [OF up idx sm])
qed

section \<open>Failures during upload\<close>

text \<open>
  C1 (the code departs from the claim). The claim: no failure during ingestion escapes
  \<open>upload_file\<close>; the handler still answers 200 with a failure summary. In
  \<open>_initialize_with_file\<close> the two OpenAI clients, the connection to the vector store
  and the vector store are built outside any \<open>try\<close>. With a PDF upload that passes
  validation and a vector store that refuses the connection, the exception leaves the
  handler.
\<close>

theorem upload_lets_connection_failure_escape:
  "fst (upload_file world_no_weaviate pdf_request (None, [])) =
     Inl (Exception ''connection refused'')"
  by code_simp

text \<open>
  C10 (the code departs from the claim). The claim: after an upload whose ingestion
  failed the session's summary is the fixed failure string, which \<open>status\<close> reports.
  The global is assigned the fresh \<open>Chatbot()\<close> before it is initialised, so after the
  upload above the session exists with neither index nor summary: \<open>status\<close> reports
  \<open>initialized: true\<close> and \<open>summary: null\<close>.
\<close>

theorem status_after_crashed_upload:
  "map_option index (fst (snd (upload_file world_no_weaviate pdf_request (None, [])))) =
     Some None
   \<and> fst (status (snd (upload_file world_no_weaviate pdf_request (None, [])))) =
       Inr (200, [(''initialized'', JBool True), (''summary'', JNull)])"
  by code_simp

text \<open>
  C3 (the code departs from the claim). The claim: on any failure \<open>extract\<close> returns
  the empty string, and the file handle is released on every exit path. The first half
  holds (\<open>extract_text_result\<close>). When the file opens and reading a page raises,
  the handler prints, returns the empty string and never calls \<open>document.close()\<close>:
  the trace has the \<open>open\<close> and no \<open>close\<close>.
\<close>

theorem extract_failure_skips_close:
  "extract_text_from_pdf world_bad_page (Chatbot_init\<lparr>filename := Some doc_path\<rparr>, []) =
     (Inr [],
      (Chatbot_init\<lparr>filename := Some doc_path\<rparr>,
       [Ev_open (Some doc_path), Ev_get_text 0,
        Ev_print ''Error extracting text from PDF: bad page'']))
   \<and> Ev_close \<notin> set (snd (snd (extract_text_from_pdf world_bad_page
         (Chatbot_init\<lparr>filename := Some doc_path\<rparr>, []))))"
  by code_simp

section \<open>A session without an index\<close>

text \<open>
  C2. For every session whose index is \<open>None\<close>, every call of \<open>ask_query\<close>, for
  every query and in every world, returns the fixed message without raising, makes no
  external call (the trace is unchanged) and leaves the session as it is; through
  \<open>chat\<close> the session is found, the answer is a 200 with that message, and the session
  still exists afterwards.
\<close>

theorem failed_session_answers_sorry:
  assumes "index c = None"
  shows "ask_query w q (c, t) = (Inr SORRY_MESSAGE, (c, t))
         \<and> chat w (JObj [(''message'', q)]) (Some c, t) =
             (Inr (200, [(''response'', JStr SORRY_MESSAGE)]), (Some c, t))"
proof -
  have ask: "ask_query w q (c, t) = (Inr SORRY_MESSAGE, (c, t))"
    by (rule ask_query_None [OF assms])
  have "chat w (JObj [(''message'', q)]) (Some c, t) =
          (Inr (200, [(''response'', JStr SORRY_MESSAGE)]), (Some c, t))"
    by (simp add: chat_def on_chatbot_def ask py_defs)
  with ask show ?thesis by simp
qed

text \<open>
  An instance: the session a bare \<open>Chatbot()\<close> is.
\<close>

theorem failed_session_answers_sorry_witness:
  "index Chatbot_init = None
   \<and> ask_query world_ok (JStr ''What does the document say?'') (Chatbot_init, []) =
       (Inr SORRY_MESSAGE, (Chatbot_init, []))
   \<and> chat world_ok (JObj [(''message'', JStr ''What does the document say?'')])
         (Some Chatbot_init, []) =
       (Inr (200, [(''response'', JStr SORRY_MESSAGE)]), (Some Chatbot_init, []))"
proof -
  have h: "index Chatbot_init = None" by (simp add: Chatbot_init_def)
  show ?thesis
    using h failed_session_answers_sorry
      [OF h, of world_ok "JStr ''What does the document say?''" "[]"]
    by simp
qed

text \<open>
  C4, as stated, fails: a failed extraction yields the empty text, and an empty text does
  not by itself fail ingestion. Here the file cannot be opened, the splitter returns no
  chunk for the empty text and the index is built from no document: the upload answers
  200, the session has an index, and a later question is answered by the query engine.
\<close>

theorem empty_extraction_still_ready:
  "fst (extract_text_from_pdf world_unreadable_pdf
          (Chatbot_init\<lparr>filename := Some doc_path\<rparr>, [])) = Inr []
   \<and> fst (upload_file world_unreadable_pdf pdf_request (None, [])) =
       Inr (200, [(''message'', JStr ''File uploaded successfully''),
                  (''summary'', JStr ''answer'')])
   \<and> map_option index (fst (snd (upload_file world_unreadable_pdf pdf_request (None, [])))) =
       Some (Some 6)
   \<and> fst (chat world_ok (JObj [(''message'', JStr ''What does the document say?'')])
          (snd (upload_file world_unreadable_pdf pdf_request (None, [])))) =
       Inr (200, [(''response'', JStr ''answer'')])
   \<and> ''answer'' \<noteq> SORRY_MESSAGE"
  by code_simp

text \<open>
  C4, amended. For every upload that passes validation and whose file is saved, if a
  step of ingestion other than the extraction of the text raises (building the LLM
  client, the embedding model, the connection to the vector store or the vector store;
  chunking; the storage context; building the index), the session exists and its index
  is \<open>None\<close>, and every later \<open>ask_query\<close> returns the fixed message verbatim, never
  an exception.
\<close>

theorem failed_ingestion_leaves_null_index:
  assumes "files req ''file'' = Some file" and "file_filename file \<noteq> []"
    and "spec_allowed (file_filename file)"
    and "save w (upload_path w file) = Returns ()"
    and "ingestion_raises w (upload_path w file)"
  shows "\<exists>r c t'. upload_file w req (g, t) = (r, (Some c, t'))
           \<and> index c = None
           \<and> (\<forall>w' q u. ask_query w' q (c, u) = (Inr SORRY_MESSAGE, (c, u)))"
proof (rule upload_session_index [OF assms(1-4), of g t])
  fix r c t'
  assume up: "upload_file w req (g, t) = (r, (Some c, t'))"
    and ix: "(index c = None) = ingestion_raises w (upload_path w file)"
  from ix assms(5) have none: "index c = None" by simp
  have "\<forall>w' q u. ask_query w' q (c, u) = (Inr SORRY_MESSAGE, (c, u))"
    by (simp add: ask_query_None [OF none])
  with up none show ?thesis by (intro exI conjI)
qed

text \<open>
  An instance: the vector store fails while the index is built.
\<close>

theorem failed_ingestion_leaves_null_index_witness:
  "files pdf_request ''file'' = Some pdf_file
   \<and> file_filename pdf_file \<noteq> []
   \<and> spec_allowed (file_filename pdf_file)
   \<and> save world_index_fails (upload_path world_index_fails pdf_file) = Returns ()
   \<and> ingestion_raises world_index_fails (upload_path world_index_fails pdf_file)
   \<and> (\<exists>r c t'. upload_file world_index_fails pdf_request (None, []) = (r, (Some c, t'))
           \<and> index c = None
           \<and> (\<forall>w' q u. ask_query w' q (c, u) = (Inr SORRY_MESSAGE, (c, u))))"
proof -
  have h1: "files pdf_request ''file'' = Some pdf_file" by (simp add: pdf_request_def)
  have h2: "file_filename pdf_file \<noteq> []" by (simp add: pdf_file_def)
  have h3: "spec_allowed (file_filename pdf_file)" by code_simp
  have h4: "save world_index_fails (upload_path world_index_fails pdf_file) = Returns ()"
    by (simp add: world_index_fails_def world_ok_def)
  have h5: "ingestion_raises world_index_fails (upload_path world_index_fails pdf_file)"
    by code_simp
  show ?thesis
    using h1 h2 h3 h4 h5
      failed_ingestion_leaves_null_index [OF h1 h2 h3 h4 h5, of None "[]"]
    by (intro conjI)
qed

section \<open>The chat handler\<close>

text \<open>
  C5, as stated, fails: a message field that is present and empty is not rejected. The
  handler tests only that the body is truthy and has the key; the empty message is passed
  to \<open>ask_query\<close> and the answer comes back with status 200.
\<close>

theorem empty_message_is_forwarded:
  "chat world_ok (JObj [(''message'', JStr [])]) (Some ready_session, []) =
     (Inr (200, [(''response'', JStr ''answer'')]),
      (Some ready_session, [Ev_as_query_engine, Ev_query (JStr [])]))"
  by code_simp

text \<open>
  C5, amended. For every chat request against an existing session: a body that is falsy
  (\<open>null\<close>, the empty object) is rejected with 400; an object without the key
  \<open>message\<close> is rejected with 400; an object with the key \<open>message\<close>, whatever its
  value, is forwarded to \<open>ask_query\<close>, which returns, and its result is the
  \<open>response\<close> of a 200.
\<close>

theorem chat_requires_message_key:
  "(\<not> truthy data \<longrightarrow>
      chat w data (Some c, t) =
        (Inr (400, [(''error'', JStr ''No message provided'')]), (Some c, t)))
   \<and> (''message'' \<notin> set (map fst kvs) \<longrightarrow>
      chat w (JObj kvs) (Some c, t) =
        (Inr (400, [(''error'', JStr ''No message provided'')]), (Some c, t)))
   \<and> (map_of kvs' ''message'' = Some q \<longrightarrow>
      (\<exists>s t'. ask_query w q (c, t) = (Inr s, (c, t'))
         \<and> chat w (JObj kvs') (Some c, t) =
             (Inr (200, [(''response'', JStr s)]), (Some c, t'))))"
proof (intro conjI impI)
  assume "\<not> truthy data"
  then show "chat w data (Some c, t) =
        (Inr (400, [(''error'', JStr ''No message provided'')]), (Some c, t))"
    by (simp add: chat_def py_defs)
next
  assume "''message'' \<notin> set (map fst kvs)"
  then show "chat w (JObj kvs) (Some c, t) =
        (Inr (400, [(''error'', JStr ''No message provided'')]), (Some c, t))"
    by (simp add: chat_def py_defs)
next
  assume look: "map_of kvs' ''message'' = Some q"
  then have key: "''message'' \<in> set (map fst kvs')"
    by (metis map_of_eq_None_iff option.distinct(1) set_map)
  then have ne: "kvs' \<noteq> []" by auto
  obtain s t' where ask: "ask_query w q (c, t) = (Inr s, (c, t'))"
    using ask_query_returns by blast
  have "chat w (JObj kvs') (Some c, t) = (Inr (200, [(''response'', JStr s)]), (Some c, t'))"
    using look key ne by (simp add: chat_def on_chatbot_def ask py_defs)
  with ask show "\<exists>s t'. ask_query w q (c, t) = (Inr s, (c, t'))
         \<and> chat w (JObj kvs') (Some c, t) =
             (Inr (200, [(''response'', JStr s)]), (Some c, t'))"
    by blast
qed

text \<open>
  An instance of each of the three cases.
\<close>

theorem chat_requires_message_key_witness:
  "\<not> truthy (JObj [])
   \<and> chat world_ok (JObj []) (Some ready_session, []) =
       (Inr (400, [(''error'', JStr ''No message provided'')]), (Some ready_session, []))
   \<and> ''message'' \<notin> set (map fst [(''text'', JStr ''hello'')])
   \<and> chat world_ok (JObj [(''text'', JStr ''hello'')]) (Some ready_session, []) =
       (Inr (400, [(''error'', JStr ''No message provided'')]), (Some ready_session, []))
   \<and> map_of [(''message'', JStr ''hello'')] ''message'' = Some (JStr ''hello'')
   \<and> (\<exists>s t'. ask_query world_ok (JStr ''hello'') (ready_session, []) =
                  (Inr s, (ready_session, t'))
         \<and> chat world_ok (JObj [(''message'', JStr ''hello'')]) (Some ready_session, []) =
             (Inr (200, [(''response'', JStr s)]), (Some ready_session, t')))"
proof -
  have h1: "\<not> truthy (JObj [])" by simp
  have h2: "''message'' \<notin> set (map fst [(''text'', JStr ''hello'')])" by simp
  have h3: "map_of [(''message'', JStr ''hello'')] ''message'' = Some (JStr ''hello'')"
    by simp
  show ?thesis
    using h1 h2 h3
      chat_requires_message_key
        [of "JObj []" world_ok ready_session "[]" "[(''text'', JStr ''hello'')]"
            "[(''message'', JStr ''hello'')]" "JStr ''hello''"]
    by blast
qed

text \<open>
  C7. Before any upload (the global is \<open>None\<close>) \<open>chat\<close> answers 400 for every
  body, in every world, and changes nothing.
\<close>

theorem chat_before_upload_is_rejected:
  "chat w data (None, t) =
     (Inr (400, [(''error'', JStr ''Please upload a document first'')]), (None, t))"
  by (simp add: chat_def py_defs)

text \<open>
  C8. For every query against a session with an index, \<open>ask_query\<close> returns a string
  and never raises; when making the query engine raises, or the query itself does, the
  string is \<open>Error processing query: \<close> followed by the text of the exception.
\<close>

theorem query_failure_becomes_message:
  assumes "index c = Some idx"
  shows "(\<exists>s t'. ask_query w q (c, t) = (Inr s, (c, t')))
   \<and> (as_query_engine w idx (llm c) = Raises e \<longrightarrow>
        ask_query w q (c, t) =
          (Inr (''Error processing query: '' @ str_of e), (c, t @ [Ev_as_query_engine])))
   \<and> (as_query_engine w idx (llm c) = Returns qe \<and> query w qe q = Raises e \<longrightarrow>
        ask_query w q (c, t) =
          (Inr (''Error processing query: '' @ str_of e),
           (c, t @ [Ev_as_query_engine, Ev_query q])))"
proof (intro conjI impI)
  show "\<exists>s t'. ask_query w q (c, t) = (Inr s, (c, t'))"
    by (rule ask_query_returns)
next
  assume "as_query_engine w idx (llm c) = Raises e"
  with assms show "ask_query w q (c, t) =
          (Inr (''Error processing query: '' @ str_of e), (c, t @ [Ev_as_query_engine]))"
    by (simp add: ask_query_def py_defs)
next
  assume "as_query_engine w idx (llm c) = Returns qe \<and> query w qe q = Raises e"
  with assms show "ask_query w q (c, t) =
          (Inr (''Error processing query: '' @ str_of e),
           (c, t @ [Ev_as_query_engine, Ev_query q]))"
    by (simp add: ask_query_def py_defs)
qed

text \<open>
  An instance of each failure: the query engine cannot be made; the LLM call fails.
\<close>

theorem query_failure_becomes_message_witness:
  "index ready_session = Some 6
   \<and> as_query_engine world_no_engine 6 (llm ready_session) = Raises (Exception ''no retriever'')
   \<and> ask_query world_no_engine (JStr ''hello'') (ready_session, []) =
       (Inr ''Error processing query: no retriever'', (ready_session, [Ev_as_query_engine]))
   \<and> as_query_engine world_llm_down 6 (llm ready_session) = Returns 7
   \<and> query world_llm_down 7 (JStr ''hello'') = Raises (Exception ''rate limit'')
   \<and> ask_query world_llm_down (JStr ''hello'') (ready_session, []) =
       (Inr ''Error processing query: rate limit'',
        (ready_session, [Ev_as_query_engine, Ev_query (JStr ''hello'')]))"
proof -
  have h: "index ready_session = Some 6" by (simp add: ready_session_def)
  have e1: "as_query_engine world_no_engine 6 (llm ready_session) =
              Raises (Exception ''no retriever'')"
    by (simp add: world_no_engine_def world_ok_def)
  have e2: "as_query_engine world_llm_down 6 (llm ready_session) = Returns 7"
    by (simp add: world_llm_down_def world_ok_def)
  have e3: "query world_llm_down 7 (JStr ''hello'') = Raises (Exception ''rate limit'')"
    by (simp add: world_llm_down_def world_ok_def)
  show ?thesis
    using h e1 e2 e3
      query_failure_becomes_message
        [OF h, of world_no_engine "JStr ''hello''" "[]" "Exception ''no retriever''" 7]
      query_failure_becomes_message
        [OF h, of world_llm_down "JStr ''hello''" "[]" "Exception ''rate limit''" 7]
    by simp
qed

section \<open>Rejected uploads\<close>

text \<open>
  C6. For every upload whose file has a filename that is not allowed (no dot, or an
  extension other than \<open>pdf\<close>), \<open>upload_file\<close> answers 400, and neither the global
  session nor the trace changes: no session is created or replaced, nothing is saved.
\<close>

theorem disallowed_extension_rejected:
  assumes "files req ''file'' = Some file" and "\<not> spec_allowed (file_filename file)"
  shows "upload_file w req (g, t) =
           (Inr (400, [(''error'',
                        JStr (if file_filename file = [] then ''No selected file''
                              else ''Invalid file type''))]),
            (g, t))"
  using assms
  by (simp add: upload_file_def allowed_file_spec file_truthy_def py_defs)

text \<open>
  An instance: a text file uploaded while a session exists.
\<close>

theorem disallowed_extension_rejected_witness:
  "files txt_request ''file'' = Some txt_file
   \<and> \<not> spec_allowed (file_filename txt_file)
   \<and> upload_file world_ok txt_request (Some ready_session, []) =
         (Inr (400, [(''error'', JStr ''Invalid file type'')]), (Some ready_session, []))"
proof -
  have h1: "files txt_request ''file'' = Some txt_file" by (simp add: txt_request_def)
  have h2: "\<not> spec_allowed (file_filename txt_file)" by code_simp
  have h3: "file_filename txt_file \<noteq> []" by (simp add: txt_file_def)
  show ?thesis
    using h1 h2 h3
      disallowed_extension_rejected [OF h1 h2, of world_ok "Some ready_session" "[]"]
    by simp
qed

end
